theory Spec2Isabelle
  imports Main "HOL-Library.Multiset"
begin

section \<open>pyplico: the packet reader (\<open>src/pyplico/packetReader.py\<close>)\<close>

text \<open>
  A shallow embedding of the class \<open>PacketReader\<close>: its constructor, the eager reader
  \<open>read_packets\<close>, the generator \<open>read_itr\<close> and the two getters. Exceptions are values
  of the type \<open>exn\<close>; a call that may raise returns \<open>exn + 'a\<close> with \<open>Inl\<close> the
  exception. The open files and the standard output are an explicit \<open>world\<close> that every
  effectful operation takes and returns.
\<close>

subsection \<open>Exceptions\<close>

text \<open>
  The exception classes the source raises or catches, with their message where the source
  gives one. \<open>UnpackError\<close> stands for \<open>dpkt.dpkt.UnpackError\<close> and its subclasses (an
  \<open>except\<close> clause catches subclasses too). \<open>OSError\<close>, an input/output failure of a
  read, and \<open>IndexError\<close>, which a decoder raises when it indexes past the end of a frame
  that is too short, are exception classes that no \<open>except\<close> clause of the two read loops
  names.
\<close>

datatype exn =
    ValueError string
  | FileNotFoundError string
  | NotImplementedError string
  | UnpackError
  | OSError string
  | IndexError string

fun is_ValueError :: "exn \<Rightarrow> bool" where
  "is_ValueError (ValueError m) = True"
| "is_ValueError e = False"

fun is_UnpackError :: "exn \<Rightarrow> bool" where
  "is_UnpackError UnpackError = True"
| "is_UnpackError e = False"

subsection \<open>The capture file as the dpkt reader sees it\<close>

text \<open>
  \<open>dpkt\<close> is an external library. A capture is described by what \<open>dpkt.pcap.Reader\<close> does
  on it: the constructor raises (\<open>BadHeader\<close>) or gives an iterator; each request for the
  next record gives a record (\<open>Rec timestamp packet\<close>), raises (\<open>Raises e\<close>) or, at the end
  of the list, stops. The frame decoder \<open>dpkt.ethernet.Ethernet\<close> is a parameter: on the
  bytes of a frame it raises or returns a frame whose \<open>data\<close> is an IP packet or is not.
  Timestamps are compared by the sort only, so any linear order serves.
\<close>

datatype 'p eth_data = IP 'p | NotIP

datatype ('t, 'f) reader_event = Rec 't 'f | Raises exn

datatype ('t, 'f) capture = BadHeader exn | Pcap "('t, 'f) reader_event list"

record ('t, 'f) file_obj =
  fileno :: nat
  content :: "('t, 'f) capture"

definition pcap_Reader :: "('t, 'f) file_obj \<Rightarrow> exn + ('t, 'f) reader_event list" where
  "pcap_Reader f = (case content f of BadHeader e \<Rightarrow> Inl e | Pcap pcaps \<Rightarrow> Inr pcaps)"

subsection \<open>The world: open files and standard output\<close>

text \<open>
  The two \<open>print\<close> calls of the source, with the numbers they format:
  \<open>Total_found total used\<close> is \<open>"Total {total} packets found. Using {total - skipped}."\<close>
  and \<open>Failed_to_unpack\<close> is \<open>"Failed to Unpack the packet. Sending next packet."\<close>.
\<close>

datatype message = Total_found int int | Failed_to_unpack

text \<open>
  \<open>handles w ! n\<close> tells whether the file object number \<open>n\<close> is open. Only \<open>open\<close>,
  \<open>close\<close> and the finaliser of a file object that nothing refers to any more change it.
\<close>

record world =
  handles :: "bool list"
  stdout :: "message list"

definition print :: "message \<Rightarrow> world \<Rightarrow> world" where
  "print m w = w\<lparr>stdout := stdout w @ [m]\<rparr>"

definition is_open :: "world \<Rightarrow> nat \<Rightarrow> bool" where
  "is_open w n = (n < length (handles w) \<and> handles w ! n)"

text \<open>
  The externals of the module: the file system (\<open>fs path\<close> is the capture stored at
  \<open>path\<close>, \<open>None\<close> when \<open>open\<close> fails there), the frame decoder of dpkt, and the class
  \<open>FlowTable\<close> of \<open>pyplico.flowtable\<close>, which is not part of the source read here: its
  constructor and its method \<open>push\<close> are parameters.
\<close>

record ('t, 'f, 'p, 'ft) externals =
  fs :: "string \<Rightarrow> ('t, 'f) capture option"
  Ethernet :: "'f \<Rightarrow> exn + 'p eth_data"
  FlowTable :: 'ft
  push :: "'ft \<Rightarrow> 'p \<Rightarrow> 'ft"

definition open_rb ::
  "('t, 'f, 'p, 'ft) externals \<Rightarrow> string \<Rightarrow> world \<Rightarrow> (('t, 'f) file_obj \<times> world) option" where
  "open_rb ext path w =
     (case fs ext path of
        None \<Rightarrow> None
      | Some c \<Rightarrow>
          Some (\<lparr>fileno = length (handles w), content = c\<rparr>, w\<lparr>handles := handles w @ [True]\<rparr>))"

definition close :: "('t, 'f) file_obj \<Rightarrow> world \<Rightarrow> world" where
  "close f w = w\<lparr>handles := (handles w)[fileno f := False]\<rparr>"

text \<open>
  CPython counts the references to an object: when the last one goes away the object is
  finalised at once, and the finaliser of a file object closes it. No line of the source
  does this; it is what the runtime does when a function returns and its local variable
  was the only reference to the file object.
\<close>

definition finalise :: "('t, 'f) file_obj \<Rightarrow> world \<Rightarrow> world" where
  "finalise f w = w\<lparr>handles := (handles w)[fileno f := False]\<rparr>"

subsection \<open>\<open>read_packets\<close>: the eager reader\<close>

text \<open>
  The \<open>for\<close> loop of \<open>read_packets\<close> over the records, with the three local variables
  \<open>packets\<close>, \<open>total\<close> (here \<open>total_n\<close>) and \<open>skipped\<close> as the loop state. An
  exception of the reader, and one of the decoder that is not an \<open>UnpackError\<close>, leaves
  the loop and the function.
\<close>

fun read_packets_loop ::
  "('f \<Rightarrow> exn + 'p eth_data) \<Rightarrow> ('t, 'f) reader_event list \<Rightarrow>
   ('p \<times> 't) list \<times> int \<times> int \<Rightarrow> exn + (('p \<times> 't) list \<times> int \<times> int)" where
  "read_packets_loop eth [] st = Inr st"
| "read_packets_loop eth (Raises e # pcaps) st = Inl e"
| "read_packets_loop eth (Rec timestamp packet # pcaps) (packets, total_n, skipped) =
     (case eth packet of
        Inl e \<Rightarrow>
          if is_UnpackError e then read_packets_loop eth pcaps (packets, total_n, skipped)
          else Inl e
      | Inr NotIP \<Rightarrow> read_packets_loop eth pcaps (packets, total_n + 1, skipped + 1)
      | Inr (IP ip) \<Rightarrow>
          read_packets_loop eth pcaps (packets @ [(ip, timestamp)], total_n + 1, skipped))"

definition read_packets ::
  "('t, 'f, 'p, 'ft) externals \<Rightarrow> bool \<Rightarrow> ('t, 'f) file_obj \<Rightarrow> world \<Rightarrow>
   (exn + ('p \<times> 't) list) \<times> world" where
  "read_packets ext verbose_flag f w =
     (case pcap_Reader f of
        Inl e \<Rightarrow> (Inl e, w)
      | Inr pcaps \<Rightarrow>
          (case read_packets_loop (Ethernet ext) pcaps ([], 0, 0) of
             Inl e \<Rightarrow> (Inl e, w)
           | Inr (packets, total_n, skipped) \<Rightarrow>
               (Inr packets,
                if verbose_flag then print (Total_found total_n (total_n - skipped)) w else w)))"

subsection \<open>\<open>read_itr\<close>: the generator\<close>

text \<open>
  A generator is a state machine. Calling \<open>read_itr(f)\<close> runs no code and gives a generator
  in the state \<open>Created\<close>; each \<open>next\<close> runs the body up to the next \<open>yield\<close>, where the
  generator is \<open>Suspended\<close> with the records still to read, or to the end of the body, by
  return or by an exception, after which it is \<open>Finished\<close>.
\<close>

datatype ('t, 'f) generator =
    Created "('t, 'f) file_obj"
  | Suspended "('t, 'f) reader_event list"
  | Finished

datatype 'a step = Yield 'a | StopIteration | Raise exn

definition read_itr :: "('t, 'f) file_obj \<Rightarrow> ('t, 'f) generator" where
  "read_itr f = Created f"

text \<open>
  The body from the head of the \<open>for\<close> loop on. The loop is inside \<open>try ... except
  ValueError: pass\<close>: a \<open>ValueError\<close> of the reader, or one of the decoder (the inner
  \<open>except\<close> names \<open>UnpackError\<close> only), ends the generator; any other exception leaves it.
\<close>

fun read_itr_loop ::
  "('f \<Rightarrow> exn + 'p eth_data) \<Rightarrow> bool \<Rightarrow> ('t, 'f) reader_event list \<Rightarrow> world \<Rightarrow>
   ('p \<times> 't) step \<times> ('t, 'f) generator \<times> world" where
  "read_itr_loop eth verbose_flag [] w = (StopIteration, Finished, w)"
| "read_itr_loop eth verbose_flag (Raises e # pcaps) w =
     (if is_ValueError e then (StopIteration, Finished, w) else (Raise e, Finished, w))"
| "read_itr_loop eth verbose_flag (Rec timestamp packet # pcaps) w =
     (case eth packet of
        Inl e \<Rightarrow>
          if is_UnpackError e then
            read_itr_loop eth verbose_flag pcaps
              (if verbose_flag then print Failed_to_unpack w else w)
          else if is_ValueError e then (StopIteration, Finished, w)
          else (Raise e, Finished, w)
      | Inr NotIP \<Rightarrow> read_itr_loop eth verbose_flag pcaps w
      | Inr (IP ip) \<Rightarrow> (Yield (ip, timestamp), Suspended pcaps, w))"

text \<open>
  One \<open>next\<close> on the generator. The first one runs \<open>pcaps = dpkt.pcap.Reader(f)\<close>, which
  is outside the \<open>try\<close>: what it raises leaves the generator, a \<open>ValueError\<close> too.
\<close>

fun gen_next ::
  "('f \<Rightarrow> exn + 'p eth_data) \<Rightarrow> bool \<Rightarrow> ('t, 'f) generator \<Rightarrow> world \<Rightarrow>
   ('p \<times> 't) step \<times> ('t, 'f) generator \<times> world" where
  "gen_next eth verbose_flag (Created f) w =
     (case pcap_Reader f of
        Inl e \<Rightarrow> (Raise e, Finished, w)
      | Inr pcaps \<Rightarrow> read_itr_loop eth verbose_flag pcaps w)"
| "gen_next eth verbose_flag (Suspended pcaps) w = read_itr_loop eth verbose_flag pcaps w"
| "gen_next eth verbose_flag Finished w = (StopIteration, Finished, w)"

text \<open>The number of records a generator may still read; it decreases with every yield.\<close>

fun gen_size :: "('t, 'f) generator \<Rightarrow> nat" where
  "gen_size (Created f) = (case content f of BadHeader e \<Rightarrow> 0 | Pcap pcaps \<Rightarrow> Suc (length pcaps))"
| "gen_size (Suspended pcaps) = length pcaps"
| "gen_size Finished = 0"

lemma read_itr_loop_yield:
  "read_itr_loop eth v pcaps w = (Yield x, g, w') \<Longrightarrow> gen_size g < length pcaps"
proof (induction pcaps arbitrary: w)
  case Nil
  then show ?case by simp
next
  case (Cons ev pcaps)
  show ?case
  proof (cases ev)
    case (Raises e)
    with Cons.prems show ?thesis by (simp split: if_splits)
  next
    case (Rec ts pk)
    with Cons.prems Cons.IH show ?thesis
      by (fastforce split: sum.splits eth_data.splits if_splits)
  qed
qed

lemma gen_next_yield:
  "gen_next eth v g w = (Yield x, g', w') \<Longrightarrow> gen_size g' < gen_size g"
proof (cases g)
  case (Created f)
  assume "gen_next eth v g w = (Yield x, g', w')"
  with Created show ?thesis
    by (cases "content f")
       (auto simp: pcap_Reader_def dest: read_itr_loop_yield)
next
  case (Suspended pcaps)
  assume "gen_next eth v g w = (Yield x, g', w')"
  with Suspended show ?thesis by (auto dest: read_itr_loop_yield)
next
  case Finished
  assume "gen_next eth v g w = (Yield x, g', w')"
  with Finished show ?thesis by simp
qed

text \<open>
  A consumer that pulls the generator to its end (\<open>for x in gen\<close>, \<open>list(gen)\<close>): the
  elements yielded, in order, and how the sequence ended: \<open>None\<close> for \<open>StopIteration\<close>,
  \<open>Some e\<close> for the exception \<open>e\<close> that reached the consumer.
\<close>

function consume ::
  "('f \<Rightarrow> exn + 'p eth_data) \<Rightarrow> bool \<Rightarrow> ('t, 'f) generator \<Rightarrow> world \<Rightarrow>
   (('p \<times> 't) list \<times> exn option) \<times> world" where
  "consume eth verbose_flag g w =
     (case gen_next eth verbose_flag g w of
        (Yield x, g', w') \<Rightarrow>
          (case consume eth verbose_flag g' w' of ((xs, r), w'') \<Rightarrow> ((x # xs, r), w''))
      | (StopIteration, g', w') \<Rightarrow> (([], None), w')
      | (Raise e, g', w') \<Rightarrow> (([], Some e), w'))"
  by pat_completeness auto
termination
  by (relation "measure (\<lambda>(eth, v, g, w). gen_size g)") (auto dest: gen_next_yield [OF sym])

declare consume.simps [simp del]


subsection \<open>The class \<open>PacketReader\<close>\<close>

text \<open>
  The parameters of \<open>__init__\<close>. \<open>file\<close> and \<open>interface\<close> are strings or \<open>None\<close>; the
  constructor tests them for truth, and the empty string is false as \<open>None\<close> is.
  The parameter \<open>sort\<close> is \<open>sort_flag\<close> here.
\<close>

record args =
  "file" :: "string option"
  interface :: "string option"
  to_itr :: bool
  to_list :: bool
  to_ft :: bool
  sort_flag :: bool
  verbose :: bool

text \<open>The default values of the signature of \<open>__init__\<close>.\<close>

definition default_args :: args where
  "default_args =
     \<lparr>file = None, interface = None, to_itr = True, to_list = False, to_ft = False,
      sort_flag = False, verbose = False\<rparr>"

fun truthy :: "string option \<Rightarrow> bool" where
  "truthy None = False"
| "truthy (Some s) = (s \<noteq> [])"

text \<open>How an f-string formats the value.\<close>

fun py_str :: "string option \<Rightarrow> string" where
  "py_str None = ''None''"
| "py_str (Some s) = s"

text \<open>
  The object: the parameters, stored as they come, the attribute \<open>ft\<close> (\<open>None\<close> is
  Python's \<open>None\<close>), and the two attributes that only some paths of the constructor
  assign, \<open>packets_itr\<close> and \<open>packets\<close>: \<open>None\<close> there means that the object has no such
  attribute.
\<close>

record ('t, 'f, 'p, 'ft) packet_reader = args +
  ft :: "'ft option"
  packets_itr :: "('t, 'f) generator option"
  packets :: "('p \<times> 't) list option"

definition new_self :: "args \<Rightarrow> ('t, 'f, 'p, 'ft) packet_reader" where
  "new_self a =
     \<lparr>file = file a, interface = interface a, to_itr = to_itr a, to_list = to_list a,
      to_ft = to_ft a, sort_flag = sort_flag a, verbose = verbose a,
      ft = None, packets_itr = None, packets = None\<rparr>"

text \<open>
  \<open>__init__\<close>. The result is the exception raised, or the object, with the world after the
  call. The last \<open>elif interface\<close> of the source has no \<open>else\<close>; the model keeps the
  fall-through, which no input reaches. The file object \<open>f\<close> is a local variable of the
  constructor. With \<open>to_itr\<close> the generator refers to it when the constructor returns;
  with \<open>to_list\<close> it is closed by then, or an exception is on its way whose traceback
  refers to it; with neither, nothing refers to it any more, and it is finalised.
\<close>

definition init ::
  "('t::linorder, 'f, 'p, 'ft) externals \<Rightarrow> args \<Rightarrow> world \<Rightarrow>
   (exn + ('t, 'f, 'p, 'ft) packet_reader) \<times> world" where
  "init ext a w =
     (if \<not> truthy (file a) \<and> \<not> truthy (interface a) then
        (Inl (ValueError ''File or Network interface is required''), w)
      else if truthy (file a) \<and> truthy (interface a) then
        (Inl (ValueError (''Both file '' @ py_str (file a) @ '' and Network Interface ''
                          @ py_str (interface a) @ '' specified.'')), w)
      else if truthy (file a) then
        (case open_rb ext (py_str (file a)) w of
           None \<Rightarrow> (Inl (FileNotFoundError (''File '' @ py_str (file a) @ '' not found!'')), w)
         | Some (f, w1) \<Rightarrow>
             if to_itr a then
               (Inr ((new_self a)\<lparr>packets_itr := Some (read_itr f)\<rparr>), w1)
             else if to_list a then
               (case read_packets ext (verbose a) f w1 of
                  (Inl e, w2) \<Rightarrow> (Inl e, w2)
                | (Inr pkts, w2) \<Rightarrow>
                    (let w3 = close f w2;
                         pkts' = (if sort_flag a \<or> to_ft a then sort_key snd pkts else pkts);
                         ft' = (if to_ft a
                                then Some (foldl (push ext) (FlowTable ext) (map fst pkts'))
                                else None)
                     in (Inr ((new_self a)\<lparr>ft := ft', packets := Some pkts'\<rparr>), w3)))
             else (Inr (new_self a), finalise f w1))
      else if truthy (interface a) then
        (Inl (NotImplementedError ''Live packet capture not implemented''), w)
      else (Inr (new_self a), w))"

text \<open>
  \<open>get_itr\<close>: reading an attribute that the object does not have raises
  \<open>AttributeError\<close>, which the method turns into a \<open>ValueError\<close>; the class name in the
  message is that of \<open>PacketReader\<close> itself. The attribute, when the constructor assigned
  it, is the generator of \<open>read_itr\<close>, so the \<open>isinstance\<close> test holds.
\<close>

definition get_itr ::
  "('t, 'f, 'p, 'ft) packet_reader \<Rightarrow> exn + ('t, 'f) generator option" where
  "get_itr self =
     (case packets_itr self of
        None \<Rightarrow> Inl (ValueError (''PacketReader'' @ '' was not initialised using to_itr''))
      | Some g \<Rightarrow> Inr (Some g))"

definition get_flow_table :: "('t, 'f, 'p, 'ft) packet_reader \<Rightarrow> 'ft option" where
  "get_flow_table self = ft self"

subsection \<open>Modes, kinds of records, and a concrete capture\<close>

text \<open>
  The two modes that the constructor knows for a file: \<open>to_itr\<close> selects the generator;
  without it, \<open>to_list\<close> selects the list.
\<close>

definition materialized :: "args \<Rightarrow> bool" where
  "materialized a = (truthy (file a) \<and> \<not> truthy (interface a) \<and> \<not> to_itr a \<and> to_list a)"


text \<open>
  A record is malformed when the decoder raises \<open>UnpackError\<close> on its frame, and non-IP
  when the decoder returns a frame whose data is not an IP packet.
\<close>

definition malformed :: "('f \<Rightarrow> exn + 'p eth_data) \<Rightarrow> ('t, 'f) reader_event \<Rightarrow> bool" where
  "malformed eth ev =
     (case ev of
        Rec t p \<Rightarrow> (case eth p of Inl e \<Rightarrow> is_UnpackError e | Inr d \<Rightarrow> False)
      | Raises e \<Rightarrow> False)"

definition non_ip :: "('f \<Rightarrow> exn + 'p eth_data) \<Rightarrow> ('t, 'f) reader_event \<Rightarrow> bool" where
  "non_ip eth ev =
     (case ev of
        Rec t p \<Rightarrow> (case eth p of Inl e \<Rightarrow> False | Inr d \<Rightarrow> d = NotIP)
      | Raises e \<Rightarrow> False)"

text \<open>
  A record is readable when the reader gives it and the decoder raises nothing on its
  frame but \<open>UnpackError\<close>: both loops go on to the next record after it.
\<close>

definition readable :: "('f \<Rightarrow> exn + 'p eth_data) \<Rightarrow> ('t, 'f) reader_event \<Rightarrow> bool" where
  "readable eth ev =
     (case ev of
        Rec t p \<Rightarrow> (case eth p of Inl e \<Rightarrow> is_UnpackError e | Inr d \<Rightarrow> True)
      | Raises e \<Rightarrow> False)"


text \<open>
  Concrete inputs. A frame is truncated, an ARP frame, an IPv4 packet with a number for
  its content, or one on which the decoder raises a given exception. The flow table of
  the examples is the list of the packets pushed, in the order of the calls.
\<close>

datatype demo_frame = Truncated | Arp | Ipv4 nat | Broken exn

fun demo_Ethernet :: "demo_frame \<Rightarrow> exn + nat eth_data" where
  "demo_Ethernet Truncated = Inl UnpackError"
| "demo_Ethernet Arp = Inr NotIP"
| "demo_Ethernet (Ipv4 n) = Inr (IP n)"
| "demo_Ethernet (Broken e) = Inl e"

fun demo_push :: "nat list \<Rightarrow> nat \<Rightarrow> nat list" where
  "demo_push table p = table @ [p]"

text \<open>Ten records: two ARP frames, one truncated frame, seven IP packets.\<close>

definition capture10 :: "(nat, demo_frame) reader_event list" where
  "capture10 =
     [Rec 1 (Ipv4 10), Rec 2 Arp, Rec 3 (Ipv4 11), Rec 4 Truncated, Rec 5 (Ipv4 12),
      Rec 6 (Ipv4 13), Rec 7 Arp, Rec 8 (Ipv4 14), Rec 9 (Ipv4 15), Rec 10 (Ipv4 16)]"

text \<open>Six records whose timestamps are out of order, two of them twice.\<close>

definition capture_shuffled :: "(nat, demo_frame) reader_event list" where
  "capture_shuffled =
     [Rec 5 (Ipv4 1), Rec 2 (Ipv4 2), Rec 5 (Ipv4 3), Rec 2 (Ipv4 4), Rec 1 Arp, Rec 3 (Ipv4 5)]"

text \<open>
  Two captures on which the reader fails after the first record: with the \<open>ValueError\<close>
  of a read from a closed file, and with an input/output error.
\<close>

definition capture_closed :: "(nat, demo_frame) reader_event list" where
  "capture_closed =
     [Rec 1 (Ipv4 10), Raises (ValueError ''read of closed file''), Rec 2 (Ipv4 11)]"

definition capture_io :: "(nat, demo_frame) reader_event list" where
  "capture_io =
     [Rec 1 (Ipv4 10), Raises (OSError ''Input/output error''), Rec 2 (Ipv4 11)]"



definition demo_fs :: "string \<Rightarrow> (nat, demo_frame) capture option" where
  "demo_fs path =
     (if path = ''ten.pcap'' then Some (Pcap capture10)
      else if path = ''shuffled.pcap'' then Some (Pcap capture_shuffled)
      else None)"

definition demo_ext :: "(nat, demo_frame, nat, nat list) externals" where
  "demo_ext = \<lparr>fs = demo_fs, Ethernet = demo_Ethernet, FlowTable = [], push = demo_push\<rparr>"

definition world0 :: world where
  "world0 = \<lparr>handles = [], stdout = []\<rparr>"

definition ten_args :: args where
  "ten_args =
     \<lparr>file = Some ''ten.pcap'', interface = None, to_itr = False, to_list = True,
      to_ft = False, sort_flag = False, verbose = True\<rparr>"

definition ten_packets :: "(nat \<times> nat) list" where
  "ten_packets = [(10, 1), (11, 3), (12, 5), (13, 6), (14, 8), (15, 9), (16, 10)]"

definition ten_reader :: "(nat, demo_frame, nat, nat list) packet_reader" where
  "ten_reader = (new_self ten_args)\<lparr>ft := None, packets := Some ten_packets\<rparr>"

definition ten_world :: world where
  "ten_world = \<lparr>handles = [False], stdout = [Total_found 9 7]\<rparr>"

text \<open>The file object that \<open>open\<close> gives for it in the empty world, and the world then.\<close>

definition ten_file :: "(nat, demo_frame) file_obj" where
  "ten_file = \<lparr>fileno = 0, content = Pcap capture10\<rparr>"

definition ten_opened :: world where
  "ten_opened = \<lparr>handles = [True], stdout = []\<rparr>"

text \<open>Calls of the constructor that differ from the defaults as shown.\<close>

definition both_args :: args where
  "both_args = default_args\<lparr>file := Some ''ten.pcap'', interface := Some ''eth0''\<rparr>"

definition iface_args :: args where
  "iface_args = default_args\<lparr>interface := Some ''eth0''\<rparr>"

definition missing_args :: args where
  "missing_args = default_args\<lparr>file := Some ''missing.pcap''\<rparr>"

definition idle_args :: args where
  "idle_args = default_args\<lparr>file := Some ''ten.pcap'', to_itr := False, to_ft := True\<rparr>"

definition shuffled_args :: args where
  "shuffled_args =
     default_args\<lparr>file := Some ''shuffled.pcap'', to_itr := False, to_list := True, to_ft := True\<rparr>"

definition stream_args :: args where
  "stream_args =
     default_args\<lparr>file := Some ''ten.pcap'', to_list := True, to_ft := True, sort_flag := True\<rparr>"

text \<open>
  The file objects of the other captures, what the constructor reads and makes of the
  shuffled capture, and the reader that the constructor makes in streaming mode.
\<close>

definition closed_file :: "(nat, demo_frame) file_obj" where
  "closed_file = \<lparr>fileno = 0, content = Pcap capture_closed\<rparr>"

definition io_file :: "(nat, demo_frame) file_obj" where
  "io_file = \<lparr>fileno = 0, content = Pcap capture_io\<rparr>"



definition shuffled_file :: "(nat, demo_frame) file_obj" where
  "shuffled_file = \<lparr>fileno = 0, content = Pcap capture_shuffled\<rparr>"

definition shuffled_read :: "(nat \<times> nat) list" where
  "shuffled_read = [(1, 5), (2, 2), (3, 5), (4, 2), (5, 3)]"

definition shuffled_sorted :: "(nat \<times> nat) list" where
  "shuffled_sorted = [(2, 2), (4, 2), (5, 3), (1, 5), (3, 5)]"

definition shuffled_reader :: "(nat, demo_frame, nat, nat list) packet_reader" where
  "shuffled_reader =
     (new_self shuffled_args)\<lparr>ft := Some [2, 4, 5, 1, 3], packets := Some shuffled_sorted\<rparr>"

definition closed_world :: world where
  "closed_world = \<lparr>handles = [False], stdout = []\<rparr>"


section \<open>Properties\<close>

subsection \<open>The constructor and the eager reader, unfolded\<close>

lemma init_materialized_Inr:
  assumes m: "materialized a" and i: "init ext a w = (Inr r, w')"
  shows "\<exists>f w1 pkts w2.
           open_rb ext (py_str (file a)) w = Some (f, w1) \<and>
           read_packets ext (verbose a) f w1 = (Inr pkts, w2) \<and>
           w' = close f w2 \<and>
           r = (new_self a)
                 \<lparr>ft := (if to_ft a
                         then Some (foldl (push ext) (FlowTable ext)
                                (map fst (if sort_flag a \<or> to_ft a then sort_key snd pkts else pkts)))
                         else None),
                  packets := Some (if sort_flag a \<or> to_ft a then sort_key snd pkts else pkts)\<rparr>"
  using m i unfolding materialized_def init_def
  by (auto simp: Let_def split: option.splits sum.splits prod.splits if_splits)

lemma read_packets_Inr:
  assumes "read_packets ext v f w = (Inr pkts, w')"
  shows "\<exists>pcaps total_n skipped.
           content f = Pcap pcaps \<and>
           read_packets_loop (Ethernet ext) pcaps ([], 0, 0) = Inr (pkts, total_n, skipped) \<and>
           w' = (if v then print (Total_found total_n (total_n - skipped)) w else w)"
  using assms unfolding read_packets_def pcap_Reader_def
  by (auto split: capture.splits sum.splits prod.splits if_splits)

text \<open>
  The invariant of the loop of \<open>read_packets\<close>: \<open>skipped\<close> grows by the non-IP records,
  \<open>total\<close> by the records that are not malformed, the list by the difference.
\<close>

lemma read_packets_loop_counts:
  "read_packets_loop eth pcaps (ps0, t0, s0) = Inr (ps, t, s) \<Longrightarrow>
   s = s0 + int (length (filter (non_ip eth) pcaps)) \<and>
   t = t0 + int (length pcaps) - int (length (filter (malformed eth) pcaps)) \<and>
   int (length ps) = int (length ps0) + (t - t0) - (s - s0)"
proof (induction pcaps arbitrary: ps0 t0 s0)
  case Nil
  then show ?case by simp
next
  case (Cons ev pcaps)
  show ?case
  proof (cases ev)
    case (Raises e)
    with Cons.prems show ?thesis by simp
  next
    case (Rec ts pk)
    show ?thesis
    proof (cases "eth pk")
      case (Inl e)
      with Rec Cons.prems have u: "is_UnpackError e"
        and r: "read_packets_loop eth pcaps (ps0, t0, s0) = Inr (ps, t, s)"
        by (simp_all split: if_splits)
      from Cons.IH [OF r] Rec Inl u show ?thesis
        by (simp add: malformed_def non_ip_def)
    next
      case (Inr d)
      show ?thesis
      proof (cases d)
        case (IP ip)
        with Rec Inr Cons.prems
        have r: "read_packets_loop eth pcaps (ps0 @ [(ip, ts)], t0 + 1, s0) = Inr (ps, t, s)"
          by simp
        from Cons.IH [OF r] Rec Inr IP show ?thesis
          by (simp add: malformed_def non_ip_def)
      next
        case NotIP
        with Rec Inr Cons.prems
        have r: "read_packets_loop eth pcaps (ps0, t0 + 1, s0 + 1) = Inr (ps, t, s)"
          by simp
        from Cons.IH [OF r] Rec Inr NotIP show ?thesis
          by (simp add: malformed_def non_ip_def)
      qed
    qed
  qed
qed

subsection \<open>The capture of ten records, evaluated\<close>

lemma ten_loop:
  "read_packets_loop demo_Ethernet capture10 ([], 0, 0) = Inr (ten_packets, 9, 2)"
  by (simp add: capture10_def ten_packets_def)

lemma ten_read:
  "read_packets demo_ext True ten_file ten_opened =
     (Inr ten_packets, \<lparr>handles = [True], stdout = [Total_found 9 7]\<rparr>)"
  by (simp add: read_packets_def pcap_Reader_def demo_ext_def ten_loop print_def ten_file_def
      ten_opened_def)

lemma ten_open: "open_rb demo_ext ''ten.pcap'' world0 = Some (ten_file, ten_opened)"
  by (simp add: open_rb_def demo_ext_def demo_fs_def world0_def ten_file_def ten_opened_def)

lemma ten_fileno: "fileno ten_file = 0"
  by (simp add: ten_file_def)

lemma ten_init: "init demo_ext ten_args world0 = (Inr ten_reader, ten_world)"
  by (simp add: init_def ten_args_def ten_open ten_read close_def ten_reader_def ten_world_def
      ten_fileno)

subsection \<open>C1: the counters of the eager reader\<close>

text \<open>
  C1, as the code has it. In materialized mode the number of skipped records plus the
  number of packets used equals the counter \<open>total\<close>, and the list has as many elements as
  packets were used; but \<open>total\<close> counts the records whose frame the decoder accepted, not
  the records of the file: a malformed record is dropped before either counter moves.
  So \<open>total\<close> is the number of records minus the malformed ones, \<open>skipped\<close> is the number
  of non-IP records, and the line printed under \<open>verbose\<close> carries \<open>total\<close> and the length
  of the list.
\<close>

theorem materialized_counters:
  assumes m: "materialized a" and i: "init ext a w = (Inr r, w')"
  shows "\<exists>pcaps pkts total_n skipped.
           fs ext (py_str (file a)) = Some (Pcap pcaps) \<and>
           read_packets_loop (Ethernet ext) pcaps ([], 0, 0) = Inr (pkts, total_n, skipped) \<and>
           map_option length (packets r) = Some (length pkts) \<and>
           skipped + int (length pkts) = total_n \<and>
           total_n = int (length pcaps) - int (length (filter (malformed (Ethernet ext)) pcaps)) \<and>
           skipped = int (length (filter (non_ip (Ethernet ext)) pcaps)) \<and>
           (verbose a \<longrightarrow> stdout w' = stdout w @ [Total_found total_n (int (length pkts))])"
proof -
  from init_materialized_Inr [OF m i] obtain f w1 pkts w2 where
    o: "open_rb ext (py_str (file a)) w = Some (f, w1)" and
    rp: "read_packets ext (verbose a) f w1 = (Inr pkts, w2)" and
    w': "w' = close f w2" and
    r: "packets r = Some (if sort_flag a \<or> to_ft a then sort_key snd pkts else pkts)"
    by auto
  from read_packets_Inr [OF rp] obtain pcaps total_n skipped where
    c: "content f = Pcap pcaps" and
    l: "read_packets_loop (Ethernet ext) pcaps ([], 0, 0) = Inr (pkts, total_n, skipped)" and
    w2: "w2 = (if verbose a then print (Total_found total_n (total_n - skipped)) w1 else w1)"
    by auto
  from o c have fs: "fs ext (py_str (file a)) = Some (Pcap pcaps)" and s1: "stdout w1 = stdout w"
    by (auto simp: open_rb_def split: option.splits)
  from read_packets_loop_counts [OF l] have
    k1: "skipped = int (length (filter (non_ip (Ethernet ext)) pcaps))" and
    k2: "total_n = int (length pcaps) - int (length (filter (malformed (Ethernet ext)) pcaps))" and
    k3: "int (length pkts) = total_n - skipped"
    by simp_all
  from r have len: "map_option length (packets r) = Some (length pkts)" by simp
  from w' w2 s1 k3 have out:
    "verbose a \<longrightarrow> stdout w' = stdout w @ [Total_found total_n (int (length pkts))]"
    by (simp add: close_def print_def)
  from fs l len k1 k2 k3 out show ?thesis by auto
qed

text \<open>The capture of ten records: the line printed says 9 packets found, 7 used.\<close>

theorem materialized_counters_witness:
  "materialized ten_args \<and> init demo_ext ten_args world0 = (Inr ten_reader, ten_world) \<and>
   fs demo_ext (py_str (file ten_args)) = Some (Pcap capture10) \<and>
   stdout ten_world = [Total_found 9 7] \<and>
   int (length capture10) - int (length (filter (malformed demo_Ethernet) capture10)) = 9"
proof -
  have m: "materialized ten_args" by (simp add: materialized_def ten_args_def)
  have e: "Ethernet demo_ext = demo_Ethernet" by (simp add: demo_ext_def)
  from materialized_counters [OF m ten_init] ten_loop e
  have "int (length capture10) - int (length (filter (malformed demo_Ethernet) capture10)) = 9"
    by (auto simp: demo_ext_def demo_fs_def ten_args_def)
  with m ten_init show ?thesis
    by (simp add: demo_ext_def demo_fs_def ten_args_def ten_world_def)
qed

text \<open>
  C1, as the claim states it, fails on the capture of ten records with two non-IP frames
  and one truncated frame: the reader counts \<open>total = 9\<close> and \<open>skipped = 2\<close>, not 10 and 3,
  and \<open>skipped\<close> plus the seven packets used is not the number of records.
\<close>

theorem total_counts_all_records_counterexample:
  "init demo_ext ten_args world0 = (Inr ten_reader, ten_world) \<and>
   stdout ten_world = [Total_found 9 7] \<and>
   read_packets_loop demo_Ethernet capture10 ([], 0, 0) = Inr (ten_packets, 9, 2) \<and>
   length capture10 = 10 \<and>
   (2 :: int) + int (length ten_packets) \<noteq> int (length capture10)"
  using ten_init ten_loop by (simp add: ten_world_def capture10_def ten_packets_def)

subsection \<open>The consumer of the generator, unfolded\<close>

lemma consume_Suspended_Nil:
  "consume eth v (Suspended []) w = (([], None), w)"
  by (subst consume.simps) simp

lemma consume_Suspended_Raises:
  "consume eth v (Suspended (Raises e # pcaps)) w =
     (([], if is_ValueError e then None else Some e), w)"
  by (subst consume.simps) simp

lemma consume_Suspended_Rec:
  "consume eth v (Suspended (Rec ts pk # pcaps)) w =
     (case eth pk of
        Inl e \<Rightarrow>
          if is_UnpackError e then
            consume eth v (Suspended pcaps) (if v then print Failed_to_unpack w else w)
          else (([], if is_ValueError e then None else Some e), w)
      | Inr NotIP \<Rightarrow> consume eth v (Suspended pcaps) w
      | Inr (IP ip) \<Rightarrow>
          (case consume eth v (Suspended pcaps) w of ((xs, r), w'') \<Rightarrow> (((ip, ts) # xs, r), w'')))"
proof (cases "eth pk")
  case (Inl e)
  then show ?thesis
    by (subst consume.simps, subst (2) consume.simps) simp
next
  case (Inr d)
  then show ?thesis
    by (cases d) (subst consume.simps, subst (2) consume.simps, simp)+
qed

lemma consume_Created:
  "consume eth v (Created f) w =
     (case pcap_Reader f of
        Inl e \<Rightarrow> (([], Some e), w)
      | Inr pcaps \<Rightarrow> consume eth v (Suspended pcaps) w)"
proof (cases "pcap_Reader f")
  case (Inl e)
  then show ?thesis by (subst consume.simps) simp
next
  case (Inr pcaps)
  then show ?thesis by (subst consume.simps, subst (2) consume.simps) simp
qed

lemma consume_Finished: "consume eth v Finished w = (([], None), w)"
  by (subst consume.simps) simp

lemmas consume_eqs =
  consume_Suspended_Nil consume_Suspended_Raises consume_Suspended_Rec consume_Created
  consume_Finished

text \<open>What the consumer sees does not depend on the world it starts in.\<close>

lemma consume_world:
  "fst (consume eth v (Suspended pcaps) w1) = fst (consume eth v (Suspended pcaps) w2)"
proof (induction pcaps arbitrary: w1 w2)
  case Nil
  show ?case by (simp add: consume_eqs)
next
  case (Cons ev pcaps)
  show ?case
  proof (cases ev)
    case (Raises e)
    then show ?thesis by (simp add: consume_eqs)
  next
    case (Rec ts pk)
    show ?thesis
    proof (cases "eth pk")
      case (Inl e)
      from Cons.IH [of "if v then print Failed_to_unpack w1 else w1"
                       "if v then print Failed_to_unpack w2 else w2"] Rec Inl
      show ?thesis by (simp add: consume_eqs)
    next
      case (Inr d)
      show ?thesis
      proof (cases d)
        case NotIP
        from Cons.IH [of w1 w2] Rec Inr NotIP show ?thesis by (simp add: consume_eqs)
      next
        case (IP ip)
        from Cons.IH [of w1 w2] Rec Inr IP show ?thesis
          by (auto simp: consume_eqs split: prod.splits)
      qed
    qed
  qed
qed


subsection \<open>C2: the generator and the eager reader give the same sequence\<close>



subsection \<open>C4: validation in the constructor\<close>

text \<open>
  C4. The constructor called with both a file and an interface, or with neither, raises
  \<open>ValueError\<close>; with an interface only, \<open>NotImplementedError\<close>; with a file that \<open>open\<close>
  cannot open, \<open>FileNotFoundError\<close>. In all four cases no object is made and the world is
  left as it was. A parameter counts as given when it is true for Python: not \<open>None\<close> and
  not the empty string.
\<close>

theorem construction_validation:
  "(truthy (file a) \<and> truthy (interface a) \<longrightarrow>
      init ext a w =
        (Inl (ValueError (''Both file '' @ py_str (file a) @ '' and Network Interface ''
                          @ py_str (interface a) @ '' specified.'')), w)) \<and>
   (\<not> truthy (file a) \<and> \<not> truthy (interface a) \<longrightarrow>
      init ext a w = (Inl (ValueError ''File or Network interface is required''), w)) \<and>
   (\<not> truthy (file a) \<and> truthy (interface a) \<longrightarrow>
      init ext a w = (Inl (NotImplementedError ''Live packet capture not implemented''), w)) \<and>
   (truthy (file a) \<and> \<not> truthy (interface a) \<and> fs ext (py_str (file a)) = None \<longrightarrow>
      init ext a w = (Inl (FileNotFoundError (''File '' @ py_str (file a) @ '' not found!'')), w))"
  by (simp add: init_def open_rb_def)

theorem construction_validation_witness:
  "init demo_ext both_args world0 =
     (Inl (ValueError ''Both file ten.pcap and Network Interface eth0 specified.''), world0) \<and>
   init demo_ext default_args world0 =
     (Inl (ValueError ''File or Network interface is required''), world0) \<and>
   init demo_ext iface_args world0 =
     (Inl (NotImplementedError ''Live packet capture not implemented''), world0) \<and>
   init demo_ext missing_args world0 =
     (Inl (FileNotFoundError ''File missing.pcap not found!''), world0)"
proof -
  have b: "truthy (file both_args) \<and> truthy (interface both_args)"
    by (simp add: both_args_def default_args_def)
  have n: "\<not> truthy (file default_args) \<and> \<not> truthy (interface default_args)"
    by (simp add: default_args_def)
  have i: "\<not> truthy (file iface_args) \<and> truthy (interface iface_args)"
    by (simp add: iface_args_def default_args_def)
  have m: "truthy (file missing_args) \<and> \<not> truthy (interface missing_args) \<and>
           fs demo_ext (py_str (file missing_args)) = None"
    by (simp add: missing_args_def default_args_def demo_ext_def demo_fs_def)
  from b construction_validation [of both_args demo_ext world0]
  have 1: "init demo_ext both_args world0 =
     (Inl (ValueError ''Both file ten.pcap and Network Interface eth0 specified.''), world0)"
    by (simp add: both_args_def default_args_def)
  from n construction_validation [of default_args demo_ext world0]
  have 2: "init demo_ext default_args world0 =
     (Inl (ValueError ''File or Network interface is required''), world0)"
    by simp
  from i construction_validation [of iface_args demo_ext world0]
  have 3: "init demo_ext iface_args world0 =
     (Inl (NotImplementedError ''Live packet capture not implemented''), world0)"
    by simp
  from m construction_validation [of missing_args demo_ext world0]
  have 4: "init demo_ext missing_args world0 =
     (Inl (FileNotFoundError ''File missing.pcap not found!''), world0)"
    by (simp add: missing_args_def default_args_def)
  from 1 2 3 4 show ?thesis by simp
qed

subsection \<open>C6: \<open>get_itr\<close> on a reader in materialized mode\<close>

text \<open>
  C6. When the constructor has succeeded in materialized mode (\<open>to_itr\<close> false, \<open>to_list\<close>
  true), \<open>get_itr\<close> on the object raises the \<open>ValueError\<close> that says that the reader was
  not initialised using \<open>to_itr\<close>: the misuse is reported by the getter, not by the
  constructor.
\<close>

theorem get_itr_materialized:
  assumes m: "materialized a" and i: "init ext a w = (Inr r, w')"
  shows "get_itr r = Inl (ValueError ''PacketReader was not initialised using to_itr'')"
proof -
  from init_materialized_Inr [OF m i] have "packets_itr r = None"
    by (auto simp: new_self_def)
  then show ?thesis by (simp add: get_itr_def)
qed

theorem get_itr_materialized_witness:
  "materialized ten_args \<and> init demo_ext ten_args world0 = (Inr ten_reader, ten_world) \<and>
   get_itr ten_reader = Inl (ValueError ''PacketReader was not initialised using to_itr'')"
proof -
  have m: "materialized ten_args" by (simp add: materialized_def ten_args_def)
  from get_itr_materialized [OF m ten_init] m ten_init show ?thesis by simp
qed

subsection \<open>C9: \<open>to_itr\<close> comes first\<close>

text \<open>
  C9. \<open>to_itr\<close> is true by default. Whenever the constructor succeeds with \<open>to_itr\<close> true,
  the object has no list of packets and no flow table, \<open>get_flow_table\<close> returns \<open>None\<close>,
  the attribute \<open>packets_itr\<close> is the generator of \<open>read_itr\<close> on the file just opened,
  which has run no code yet, and the only effect is that this file is open. The values
  of \<open>to_list\<close>, \<open>to_ft\<close> and \<open>sort\<close> change nothing but the three attributes that store
  them.
\<close>

theorem to_itr_precedence:
  assumes t: "to_itr a" and i: "init ext a w = (Inr r, w')"
  shows "to_itr default_args \<and>
         packets r = None \<and> ft r = None \<and> get_flow_table r = None \<and>
         (\<exists>c. fs ext (py_str (file a)) = Some c \<and>
              packets_itr r = Some (read_itr \<lparr>fileno = length (handles w), content = c\<rparr>)) \<and>
         w' = w\<lparr>handles := handles w @ [True]\<rparr> \<and>
         init ext (a\<lparr>to_list := l, to_ft := t', sort_flag := s\<rparr>) w =
           (Inr (r\<lparr>to_list := l, to_ft := t', sort_flag := s\<rparr>), w')"
  using t i unfolding init_def open_rb_def get_flow_table_def
  by (auto simp: new_self_def default_args_def split: option.splits if_splits)

theorem to_itr_precedence_witness:
  "to_itr stream_args \<and>
   init demo_ext stream_args world0 =
     (Inr ((new_self stream_args)\<lparr>packets_itr := Some (read_itr ten_file)\<rparr>), ten_opened) \<and>
   get_flow_table
     ((new_self stream_args :: (nat, demo_frame, nat, nat list) packet_reader)
        \<lparr>packets_itr := Some (read_itr ten_file)\<rparr>) = None"
proof -
  have t: "to_itr stream_args" by (simp add: stream_args_def default_args_def)
  have i: "init demo_ext stream_args world0 =
     (Inr ((new_self stream_args)\<lparr>packets_itr := Some (read_itr ten_file)\<rparr>), ten_opened)"
    by (simp add: init_def stream_args_def default_args_def ten_open)
  from to_itr_precedence [OF t i] t i show ?thesis by simp
qed

subsection \<open>C10: neither \<open>to_itr\<close> nor \<open>to_list\<close>\<close>

text \<open>
  C10, as the code has it. With a file that opens, no interface, and both \<open>to_itr\<close> and
  \<open>to_list\<close> false, the constructor succeeds: it opens the file, reads and prints
  nothing and never closes the file; the object has no list, no generator and no flow
  table (also when \<open>to_ft\<close> is true), and \<open>get_itr\<close> on it raises the \<open>ValueError\<close> that
  says that the reader was not initialised using \<open>to_itr\<close>. The file does not stay open:
  nothing refers to the file object when the constructor returns, so the runtime
  finalises it, and it is closed then.
\<close>

theorem no_mode_construction:
  assumes "truthy (file a)" and "\<not> truthy (interface a)" and "\<not> to_itr a" and "\<not> to_list a"
    and "fs (ext :: ('t::linorder, 'f, 'p, 'ft) externals) (py_str (file a)) = Some c"
  shows "\<exists>f w1.
           open_rb ext (py_str (file a)) w = Some (f, w1) \<and>
           fileno f = length (handles w) \<and> content f = c \<and> is_open w1 (fileno f) \<and>
           init ext a w = (Inr (new_self a), finalise f w1) \<and>
           finalise f w1 = w\<lparr>handles := handles w @ [False]\<rparr> \<and>
           \<not> is_open (finalise f w1) (fileno f) \<and>
           packets (new_self a :: ('t, 'f, 'p, 'ft) packet_reader) = None \<and>
           packets_itr (new_self a :: ('t, 'f, 'p, 'ft) packet_reader) = None \<and>
           ft (new_self a :: ('t, 'f, 'p, 'ft) packet_reader) = None \<and>
           get_itr (new_self a :: ('t, 'f, 'p, 'ft) packet_reader) =
             Inl (ValueError ''PacketReader was not initialised using to_itr'')"
  using assms
  by (simp add: init_def open_rb_def is_open_def finalise_def new_self_def get_itr_def)

theorem no_mode_construction_witness:
  "truthy (file idle_args) \<and> \<not> truthy (interface idle_args) \<and> \<not> to_itr idle_args \<and>
   \<not> to_list idle_args \<and> to_ft idle_args \<and>
   fs demo_ext (py_str (file idle_args)) = Some (Pcap capture10) \<and>
   open_rb demo_ext (py_str (file idle_args)) world0 = Some (ten_file, ten_opened) \<and>
   is_open ten_opened 0 \<and>
   init demo_ext idle_args world0 = (Inr (new_self idle_args), closed_world) \<and>
   \<not> is_open closed_world 0 \<and>
   get_itr (new_self idle_args :: (nat, demo_frame, nat, nat list) packet_reader) =
     Inl (ValueError ''PacketReader was not initialised using to_itr'')"
proof -
  have h: "truthy (file idle_args)" "\<not> truthy (interface idle_args)" "\<not> to_itr idle_args"
    "\<not> to_list idle_args" "fs demo_ext (py_str (file idle_args)) = Some (Pcap capture10)"
    by (simp_all add: idle_args_def default_args_def demo_ext_def demo_fs_def)
  have t: "to_ft idle_args" by (simp add: idle_args_def)
  have p: "py_str (file idle_args) = ''ten.pcap''" by (simp add: idle_args_def)
  have c: "world0\<lparr>handles := handles world0 @ [False]\<rparr> = closed_world"
    by (simp add: world0_def closed_world_def)
  from no_mode_construction [OF h, where w = world0]
  have "is_open ten_opened 0 \<and>
        init demo_ext idle_args world0 = (Inr (new_self idle_args), closed_world) \<and>
        \<not> is_open closed_world 0 \<and>
        get_itr (new_self idle_args :: (nat, demo_frame, nat, nat list) packet_reader) =
          Inl (ValueError ''PacketReader was not initialised using to_itr'')"
    by (auto simp: p ten_open c ten_fileno)
  with h t p ten_open show ?thesis by simp
qed

text \<open>
  C10, as the claim states it, fails in one point: after the constructor has returned,
  the file that it opened is not open.
\<close>

theorem no_mode_file_left_open_counterexample:
  "init demo_ext idle_args world0 = (Inr (new_self idle_args), closed_world) \<and>
   \<not> is_open closed_world 0"
  by (simp add: init_def idle_args_def default_args_def ten_open finalise_def ten_fileno
      ten_opened_def closed_world_def is_open_def)

subsection \<open>C3: sorting and the flow table\<close>

text \<open>
  C3. In materialized mode with \<open>sort\<close> or \<open>to_ft\<close> true, the list exposed is the list
  read, sorted by timestamp in ascending order and stably: it has the same elements, and
  the packets of one timestamp are in the order in which they were read. With \<open>to_ft\<close>
  true, also when \<open>sort\<close> is false, the flow table is the new table after one \<open>push\<close> for
  each packet of the whole sorted list, in the order of that list.
\<close>

theorem materialized_sorted:
  assumes m: "materialized a" and s: "sort_flag a \<or> to_ft a" and i: "init ext a w = (Inr r, w')"
  shows "\<exists>f w1 pkts w2 ps.
           open_rb ext (py_str (file a)) w = Some (f, w1) \<and>
           read_packets ext (verbose a) f w1 = (Inr pkts, w2) \<and>
           packets r = Some ps \<and>
           sorted (map snd ps) \<and>
           mset ps = mset pkts \<and>
           (\<forall>k. filter (\<lambda>x. snd x = k) ps = filter (\<lambda>x. snd x = k) pkts) \<and>
           (to_ft a \<longrightarrow> ft r = Some (foldl (push ext) (FlowTable ext) (map fst ps))) \<and>
           (\<not> to_ft a \<longrightarrow> ft r = None)"
proof -
  from init_materialized_Inr [OF m i] s obtain f w1 pkts w2 where
    o: "open_rb ext (py_str (file a)) w = Some (f, w1)" and
    rp: "read_packets ext (verbose a) f w1 = (Inr pkts, w2)" and
    p: "packets r = Some (sort_key snd pkts)" and
    t: "ft r = (if to_ft a
                then Some (foldl (push ext) (FlowTable ext) (map fst (sort_key snd pkts)))
                else None)"
    by auto
  have 1: "sorted (map snd (sort_key snd pkts))" by (rule sorted_sort_key)
  have 2: "mset (sort_key snd pkts) = mset pkts" by simp
  have 3: "filter (\<lambda>x. snd x = k) (sort_key snd pkts) = filter (\<lambda>x. snd x = k) pkts" for k
    by (rule sort_key_stable)
  from o rp p t 1 2 3 show ?thesis by auto
qed

text \<open>The shuffled capture, with \<open>to_ft\<close> true and \<open>sort\<close> false.\<close>

lemma shuffled_open:
  "open_rb demo_ext ''shuffled.pcap'' world0 = Some (shuffled_file, ten_opened)"
  by (simp add: open_rb_def demo_ext_def demo_fs_def world0_def shuffled_file_def ten_opened_def)

lemma shuffled_loop:
  "read_packets_loop demo_Ethernet capture_shuffled ([], 0, 0) = Inr (shuffled_read, 6, 1)"
  by (simp add: capture_shuffled_def shuffled_read_def)

lemma shuffled_read_packets:
  "read_packets demo_ext False shuffled_file ten_opened = (Inr shuffled_read, ten_opened)"
  by (simp add: read_packets_def pcap_Reader_def demo_ext_def shuffled_loop shuffled_file_def)

lemma shuffled_sort: "sort_key snd shuffled_read = shuffled_sorted"
  by (simp add: shuffled_read_def shuffled_sorted_def)

lemma shuffled_init:
  "init demo_ext shuffled_args world0 = (Inr shuffled_reader, closed_world)"
proof -
  have c: "close shuffled_file ten_opened = closed_world"
    by (simp add: close_def shuffled_file_def ten_opened_def closed_world_def)
  have p: "foldl (push demo_ext) (FlowTable demo_ext) (map fst shuffled_sorted) = [2, 4, 5, 1, 3]"
    by (simp add: demo_ext_def shuffled_sorted_def)
  show ?thesis
    by (simp add: init_def shuffled_args_def default_args_def shuffled_open shuffled_read_packets
        shuffled_sort p c shuffled_reader_def)
qed

theorem materialized_sorted_witness:
  "materialized shuffled_args \<and> (sort_flag shuffled_args \<or> to_ft shuffled_args) \<and>
   \<not> sort_flag shuffled_args \<and>
   init demo_ext shuffled_args world0 = (Inr shuffled_reader, closed_world) \<and>
   read_packets demo_ext False shuffled_file ten_opened = (Inr shuffled_read, ten_opened) \<and>
   packets shuffled_reader = Some shuffled_sorted \<and>
   sorted (map snd shuffled_sorted) \<and>
   mset shuffled_sorted = mset shuffled_read \<and>
   ft shuffled_reader = Some (foldl demo_push [] (map fst shuffled_sorted))"
proof -
  have m: "materialized shuffled_args"
    by (simp add: materialized_def shuffled_args_def default_args_def)
  have s: "sort_flag shuffled_args \<or> to_ft shuffled_args"
    by (simp add: shuffled_args_def)
  have t: "to_ft shuffled_args"
    by (simp add: shuffled_args_def)
  have n: "\<not> sort_flag shuffled_args"
    by (simp add: shuffled_args_def default_args_def)
  have v: "verbose shuffled_args = False" "py_str (file shuffled_args) = ''shuffled.pcap''"
    by (simp_all add: shuffled_args_def default_args_def)
  have p: "packets shuffled_reader = Some shuffled_sorted"
    by (simp add: shuffled_reader_def)
  have e: "FlowTable demo_ext = []" "push demo_ext = demo_push"
    by (simp_all add: demo_ext_def)
  from materialized_sorted [OF m s shuffled_init]
  have "sorted (map snd shuffled_sorted) \<and> mset shuffled_sorted = mset shuffled_read \<and>
        ft shuffled_reader = Some (foldl demo_push [] (map fst shuffled_sorted))"
    by (auto simp: v p e t shuffled_open shuffled_read_packets)
  with m s n shuffled_init shuffled_read_packets p show ?thesis by simp
qed

subsection \<open>C8: when the file is closed\<close>













subsection \<open>C5: a failure of the reader in the middle of the stream\<close>

lemma consume_ValueError:
  "is_ValueError e \<Longrightarrow>
   fst (consume eth v (Suspended (xs @ Raises e # ys)) w) = fst (consume eth v (Suspended xs) w)"
proof (induction xs arbitrary: w)
  case Nil
  then show ?case by (simp add: consume_eqs)
next
  case (Cons ev xs)
  show ?case
  proof (cases ev)
    case (Raises e')
    then show ?thesis by (simp add: consume_eqs)
  next
    case (Rec t p)
    show ?thesis
    proof (cases "eth p")
      case (Inl e')
      with Rec Cons.IH [OF Cons.prems] show ?thesis by (simp add: consume_eqs)
    next
      case (Inr d)
      show ?thesis
      proof (cases d)
        case NotIP
        with Rec Inr Cons.IH [OF Cons.prems] show ?thesis by (simp add: consume_eqs)
      next
        case (IP ip)
        from Cons.IH [OF Cons.prems, of w] Rec Inr IP show ?thesis
          by (auto simp: consume_eqs split: prod.splits)
      qed
    qed
  qed
qed

lemma consume_other_error:
  "\<not> is_ValueError e \<Longrightarrow> list_all (readable eth) xs \<Longrightarrow>
   fst (consume eth v (Suspended (xs @ Raises e # ys)) w) =
     (fst (fst (consume eth v (Suspended xs) w)), Some e)"
proof (induction xs arbitrary: w)
  case Nil
  then show ?case by (simp add: consume_eqs)
next
  case (Cons ev xs)
  from Cons.prems have r: "readable eth ev" and rs: "list_all (readable eth) xs" by simp_all
  note IH = Cons.IH [OF Cons.prems(1) rs]
  show ?case
  proof (cases ev)
    case (Raises e')
    with r show ?thesis by (simp add: readable_def)
  next
    case (Rec t p)
    show ?thesis
    proof (cases "eth p")
      case (Inl e')
      with Rec r IH show ?thesis by (simp add: consume_eqs readable_def)
    next
      case (Inr d)
      show ?thesis
      proof (cases d)
        case NotIP
        with Rec Inr IH show ?thesis by (simp add: consume_eqs)
      next
        case (IP ip)
        from IH [of w] Rec Inr IP show ?thesis
          by (auto simp: consume_eqs split: prod.splits)
      qed
    qed
  qed
qed

text \<open>
  C5, as the code has it. When the reader raises a \<open>ValueError\<close> in the middle of the
  stream, the consumer sees what it would see had the capture ended there: the packets
  before, then the end of the sequence. When the reader raises an exception of another
  class after records that were all readable, the consumer gets the packets before and
  then that exception.
\<close>

theorem reader_failure_mid_stream:
  "(is_ValueError e \<longrightarrow>
      fst (consume eth v (read_itr (f\<lparr>content := Pcap (xs @ Raises e # ys)\<rparr>)) w) =
      fst (consume eth v (read_itr (f\<lparr>content := Pcap xs\<rparr>)) w)) \<and>
   (\<not> is_ValueError e \<and> list_all (readable eth) xs \<longrightarrow>
      fst (consume eth v (read_itr (f\<lparr>content := Pcap (xs @ Raises e # ys)\<rparr>)) w) =
      (fst (fst (consume eth v (read_itr (f\<lparr>content := Pcap xs\<rparr>)) w)), Some e))"
  using consume_ValueError [of e eth v xs ys w] consume_other_error [of e eth xs v ys w]
  by (simp add: read_itr_def consume_Created pcap_Reader_def)

text \<open>The two captures on which the reader fails after the first record.\<close>

theorem reader_failure_mid_stream_witness:
  "is_ValueError (ValueError ''read of closed file'') \<and>
   fst (consume demo_Ethernet False (read_itr closed_file) ten_opened) = ([(10, 1)], None) \<and>
   \<not> is_ValueError (OSError ''Input/output error'') \<and>
   list_all (readable demo_Ethernet) [Rec (1 :: nat) (Ipv4 10)] \<and>
   fst (consume demo_Ethernet False (read_itr io_file) ten_opened) =
     ([(10, 1)], Some (OSError ''Input/output error''))"
proof -
  have r: "list_all (readable demo_Ethernet) [Rec (1 :: nat) (Ipv4 10)]"
    by (simp add: readable_def)
  have p: "fst (consume demo_Ethernet False
                  (read_itr (ten_file\<lparr>content := Pcap [Rec 1 (Ipv4 10)]\<rparr>)) ten_opened)
           = ([(10, 1)], None)"
    by (simp add: read_itr_def ten_file_def pcap_Reader_def consume_eqs)
  have c: "ten_file\<lparr>content := Pcap ([Rec 1 (Ipv4 10)] @
             Raises (ValueError ''read of closed file'') # [Rec 2 (Ipv4 11)])\<rparr> = closed_file"
    by (simp add: ten_file_def closed_file_def capture_closed_def)
  have i: "ten_file\<lparr>content := Pcap ([Rec 1 (Ipv4 10)] @
             Raises (OSError ''Input/output error'') # [Rec 2 (Ipv4 11)])\<rparr> = io_file"
    by (simp add: ten_file_def io_file_def capture_io_def)
  from reader_failure_mid_stream [where e = "ValueError ''read of closed file''"
      and eth = demo_Ethernet and v = False and f = ten_file and xs = "[Rec 1 (Ipv4 10)]"
      and ys = "[Rec 2 (Ipv4 11)]" and w = ten_opened] p
  have 1: "fst (consume demo_Ethernet False (read_itr closed_file) ten_opened) = ([(10, 1)], None)"
    unfolding c by simp
  from reader_failure_mid_stream [where e = "OSError ''Input/output error''"
      and eth = demo_Ethernet and v = False and f = ten_file and xs = "[Rec 1 (Ipv4 10)]"
      and ys = "[Rec 2 (Ipv4 11)]" and w = ten_opened] p r
  have 2: "fst (consume demo_Ethernet False (read_itr io_file) ten_opened) =
             ([(10, 1)], Some (OSError ''Input/output error''))"
    unfolding i by simp
  from 1 2 r show ?thesis by simp
qed

text \<open>
  C5, as the claim states it, fails when the failure of the reader is not a \<open>ValueError\<close>:
  on an input/output error after the first record the consumer gets one packet and then
  the \<open>OSError\<close>, not the end of the sequence.
\<close>

theorem reader_failure_propagates_counterexample:
  "consume demo_Ethernet False (read_itr io_file) ten_opened =
     (([(10, 1)], Some (OSError ''Input/output error'')), ten_opened)"
  by (simp add: read_itr_def io_file_def pcap_Reader_def consume_eqs capture_io_def)

subsection \<open>C7: frames that the decoder rejects\<close>












end
